theory Spec2Isabelle
  imports Complex_Main "HOL-Library.Sublist"
begin

section \<open>Python values\<close>

text \<open>
  A Python \<open>str\<close> is a sequence of Unicode code points. The JSON documents the
  program reads become values of \<open>pyval\<close>; a \<open>dict\<close> is an association list read
  with \<open>map_of\<close> (its keys are distinct, as \<open>json.loads\<close> builds them). A Python float
  is an IEEE double: a rational, an infinity or a NaN; only its truth value and its
  truncation to an integer are used.
\<close>

type_synonym pystr = "nat list"

definition str_lit :: "string \<Rightarrow> pystr" where
  "str_lit s = map of_char s"

datatype pyfloat = Finite rat | PosInf | NegInf | NaN

datatype pyval =
    PNone
  | PBool bool
  | PInt int
  | PFloat pyfloat
  | PStr pystr
  | PList "pyval list"
  | PDict "(pystr \<times> pyval) list"

datatype pyerr =
  AttributeError | TypeError | KeyError | ValueError | OverflowError | OSError | RequestException

text \<open>
  What the run takes from outside the program text: the date that
  \<open>datetime.now().strftime("%Y-%m-%d")\<close> gives while record \<open>idx\<close> is converted,
  the text \<open>str()\<close> gives for a value that is not a \<open>str\<close>, the integer
  \<open>int()\<close> reads from a non-empty \<open>str\<close> (\<open>None\<close>: ValueError), and the exception,
  if any, that opening, writing or reading back the output file raises.
\<close>

record runtime =
  now_date :: "nat \<Rightarrow> pystr"
  str_other :: "pyval \<Rightarrow> pystr"
  int_of_str :: "pystr \<Rightarrow> int option"
  io_error :: "pyerr option"

definition and_then :: "'e + 'a \<Rightarrow> ('a \<Rightarrow> 'e + 'b) \<Rightarrow> 'e + 'b" where
  "and_then m f = (case m of Inl e \<Rightarrow> Inl e | Inr x \<Rightarrow> f x)"

text \<open>Truth value of a Python object (\<open>if v:\<close>).\<close>

fun truthy :: "pyval \<Rightarrow> bool" where
  "truthy PNone = False"
| "truthy (PBool b) = b"
| "truthy (PInt n) = (n \<noteq> 0)"
| "truthy (PFloat f) = (f \<noteq> Finite 0)"
| "truthy (PStr s) = (s \<noteq> [])"
| "truthy (PList xs) = (xs \<noteq> [])"
| "truthy (PDict kvs) = (kvs \<noteq> [])"

text \<open>\<open>d.get(k, dflt)\<close>: only a dict has the method.\<close>

fun dict_get :: "pyval \<Rightarrow> pystr \<Rightarrow> pyval \<Rightarrow> pyerr + pyval" where
  "dict_get (PDict kvs) k dflt = Inr (case map_of kvs k of Some v \<Rightarrow> v | None \<Rightarrow> dflt)"
| "dict_get _ k dflt = Inl AttributeError"

text \<open>
  \<open>k in c\<close> for a string \<open>k\<close>: a key of a dict, an element of a list, a substring of a
  string; any other container argument raises TypeError.
\<close>

fun py_in :: "pystr \<Rightarrow> pyval \<Rightarrow> pyerr + bool" where
  "py_in k (PDict kvs) = Inr (k \<in> set (map fst kvs))"
| "py_in k (PList xs) = Inr (PStr k \<in> set xs)"
| "py_in k (PStr s) = Inr (sublist k s)"
| "py_in k _ = Inl TypeError"

text \<open>\<open>c[k]\<close> for a string \<open>k\<close>.\<close>

fun py_getitem :: "pyval \<Rightarrow> pystr \<Rightarrow> pyerr + pyval" where
  "py_getitem (PDict kvs) k = (case map_of kvs k of Some v \<Rightarrow> Inr v | None \<Rightarrow> Inl KeyError)"
| "py_getitem _ k = Inl TypeError"

text \<open>\<open>str.isspace\<close> on one code point, and \<open>str.strip()\<close>.\<close>

definition isspace :: "nat \<Rightarrow> bool" where
  "isspace c = ((0x09 \<le> c \<and> c \<le> 0x0D) \<or> (0x1C \<le> c \<and> c \<le> 0x20) \<or> c = 0x85 \<or> c = 0xA0
     \<or> c = 0x1680 \<or> (0x2000 \<le> c \<and> c \<le> 0x200A) \<or> c = 0x2028 \<or> c = 0x2029
     \<or> c = 0x202F \<or> c = 0x205F \<or> c = 0x3000)"

definition strip :: "pystr \<Rightarrow> pystr" where
  "strip s = rev (dropWhile isspace (rev (dropWhile isspace s)))"

definition py_str :: "runtime \<Rightarrow> pyval \<Rightarrow> pystr" where
  "py_str rt v = (case v of PStr s \<Rightarrow> s | _ \<Rightarrow> str_other rt v)"

text \<open>\<open>int(v)\<close>: a float is truncated towards zero.\<close>

fun py_int :: "runtime \<Rightarrow> pyval \<Rightarrow> pyerr + int" where
  "py_int rt (PInt n) = Inr n"
| "py_int rt (PBool b) = Inr (if b then 1 else 0)"
| "py_int rt (PFloat (Finite r)) = Inr (if r < 0 then \<lceil>r\<rceil> else \<lfloor>r\<rfloor>)"
| "py_int rt (PFloat PosInf) = Inl OverflowError"
| "py_int rt (PFloat NegInf) = Inl OverflowError"
| "py_int rt (PFloat NaN) = Inl ValueError"
| "py_int rt (PStr s) =
     (if s = [] then Inl ValueError
      else case int_of_str rt s of Some n \<Rightarrow> Inr n | None \<Rightarrow> Inl ValueError)"
| "py_int rt _ = Inl TypeError"

section \<open>The transformer: \<open>convert_to_app_format\<close>\<close>

record properties =
  romnr :: nat
  plasser :: int
  adresse :: pyval
  datauttaksdato :: pystr

record geometry =
  geom_type :: pystr
  coordinates :: "pyval list"

record feature =
  feature_type :: pystr
  feature_geometry :: geometry
  feature_properties :: properties

record geojson =
  coll_type :: pystr
  coll_name :: pystr
  coll_features :: "feature list"

record conv_state =
  features :: "feature list"
  swedish_char_count :: nat

definition placeholder :: pystr where
  "placeholder = str_lit ''Ok'' @ [0xE4] @ str_lit ''nd adress''"

definition swedish_chars :: "nat list" where
  "swedish_chars = [0xE5, 0xE4, 0xF6, 0xC5, 0xC4, 0xD6]"

text \<open>\<open>"x" in geom and "y" in geom\<close>, left to right.\<close>

definition has_xy :: "pyval \<Rightarrow> pyerr + bool" where
  "has_xy geom =
     and_then (py_in (str_lit ''x'') geom) (\<lambda>hx.
       if hx then py_in (str_lit ''y'') geom else Inr False)"

text \<open>
  Lines 85 to 89: a truthy address is replaced by its stripped text, and the counter goes
  up when that text holds one of the six letters; a falsy address is left as it is.
\<close>

definition any_swedish :: "pystr \<Rightarrow> bool" where
  "any_swedish address = list_ex (\<lambda>ch. ch \<in> set address) swedish_chars"

definition address_block :: "runtime \<Rightarrow> pyval \<Rightarrow> conv_state \<Rightarrow> pyval \<times> conv_state" where
  "address_block rt address st =
     (if truthy address then
        (let stripped = strip (py_str rt address) in
           (PStr stripped,
            if any_swedish stripped
            then st\<lparr>swedish_char_count := swedish_char_count st + 1\<rparr> else st))
      else (address, st))"

text \<open>Lines 92 and 93 (\<open>if capacity is None\<close>), and line 105 (\<open>int(capacity) if capacity else 0\<close>).\<close>

definition none_to_zero :: "pyval \<Rightarrow> pyval" where
  "none_to_zero capacity = (if capacity = PNone then PInt 0 else capacity)"

definition plasser_of :: "runtime \<Rightarrow> pyval \<Rightarrow> pyerr + int" where
  "plasser_of rt capacity = (if truthy capacity then py_int rt capacity else Inr 0)"

text \<open>The dict literal of lines 97 to 109.\<close>

definition make_feature :: "runtime \<Rightarrow> nat \<Rightarrow> pyval \<Rightarrow> pyval \<Rightarrow> int \<Rightarrow> pyval \<Rightarrow> feature" where
  "make_feature rt idx lon lat plasser_v address =
     \<lparr>feature_type = str_lit ''Feature'',
      feature_geometry = \<lparr>geom_type = str_lit ''Point'', coordinates = [lon, lat]\<rparr>,
      feature_properties =
        \<lparr>romnr = idx, plasser = plasser_v, adresse = address,
         datauttaksdato = now_date rt idx\<rparr>\<rparr>"

text \<open>
  Lines 78 to 110, for a record that passed the geometry test: read the coordinates and
  the attributes and append the feature. An exception leaves the function (\<open>Inl\<close>).
\<close>

definition emit_feature ::
  "runtime \<Rightarrow> nat \<Rightarrow> pyval \<Rightarrow> pyval \<Rightarrow> conv_state \<Rightarrow> pyerr + conv_state" where
  "emit_feature rt idx attrs geom st =
     and_then (py_getitem geom (str_lit ''x'')) (\<lambda>lon.
     and_then (py_getitem geom (str_lit ''y'')) (\<lambda>lat.
     and_then (dict_get attrs (str_lit ''Gatuadress'') (PStr placeholder)) (\<lambda>address0.
       case address_block rt address0 st of (address, st1) \<Rightarrow>
     and_then (dict_get attrs (str_lit ''AntalPlatser'') (PInt 0)) (\<lambda>capacity0.
     and_then (dict_get attrs (str_lit ''Skyddsrumsnr'') (PInt (int idx))) (\<lambda>shelter_nr.
     and_then (plasser_of rt (none_to_zero capacity0)) (\<lambda>plasser_v.
       Inr (st1\<lparr>features := features st1 @
              [make_feature rt idx lon lat plasser_v address]\<rparr>)))))))"

text \<open>
  One pass of the loop body on record \<open>idx\<close>: the state is returned unchanged where the
  source says \<open>continue\<close>.
\<close>

definition convert_step :: "runtime \<Rightarrow> nat \<Rightarrow> pyval \<Rightarrow> conv_state \<Rightarrow> pyerr + conv_state" where
  "convert_step rt idx arcgis_feature st =
     and_then (dict_get arcgis_feature (str_lit ''attributes'') (PDict [])) (\<lambda>attrs.
     and_then (dict_get arcgis_feature (str_lit ''geometry'') (PDict [])) (\<lambda>geom.
     and_then (has_xy geom) (\<lambda>both.
       if both then emit_feature rt idx attrs geom st else Inr st)))"

text \<open>\<open>for idx, arcgis_feature in enumerate(arcgis_features)\<close>.\<close>

fun convert_loop :: "runtime \<Rightarrow> (nat \<times> pyval) list \<Rightarrow> conv_state \<Rightarrow> pyerr + conv_state" where
  "convert_loop rt [] st = Inr st"
| "convert_loop rt ((idx, arcgis_feature) # rest) st =
     and_then (convert_step rt idx arcgis_feature st) (convert_loop rt rest)"

text \<open>The state when the loop is left: the features and the counter that is printed.\<close>

definition convert_state :: "runtime \<Rightarrow> pyval list \<Rightarrow> pyerr + conv_state" where
  "convert_state rt arcgis_features =
     convert_loop rt (enumerate 0 arcgis_features) \<lparr>features = [], swedish_char_count = 0\<rparr>"

definition convert_to_app_format :: "runtime \<Rightarrow> pyval list \<Rightarrow> pyerr + geojson" where
  "convert_to_app_format rt arcgis_features =
     and_then (convert_state rt arcgis_features) (\<lambda>st.
       Inr \<lparr>coll_type = str_lit ''FeatureCollection'',
            coll_name = str_lit ''Skyddsrum Sverige'',
            coll_features = features st\<rparr>)"

section \<open>The fetcher: \<open>fetch_all_shelters\<close>\<close>

text \<open>
  The service is the answer it gives to the request at each offset: \<open>Failed\<close> when
  \<open>requests.get\<close>, \<open>raise_for_status\<close> or \<open>response.json()\<close> raises, the parsed body
  otherwise. The loop asks for each offset at most once.
\<close>

datatype response = Failed | Body pyval

definition page_size :: nat where
  "page_size = 2000"

text \<open>The elements that \<open>list.extend(v)\<close> appends and \<open>len(v)\<close> counts.\<close>

fun py_iter :: "pyval \<Rightarrow> pyerr + pyval list" where
  "py_iter (PList xs) = Inr xs"
| "py_iter (PStr s) = Inr (map (\<lambda>c. PStr [c]) s)"
| "py_iter (PDict kvs) = Inr (map (\<lambda>kv. PStr (fst kv)) kvs)"
| "py_iter _ = Inl TypeError"

text \<open>
  The body of the \<open>try\<close> block for one answer: the new \<open>all_features\<close> and whether the
  loop goes on to the next offset (\<open>False\<close>: \<open>break\<close>).
\<close>

definition try_page :: "response \<Rightarrow> pyval list \<Rightarrow> pyerr + (bool \<times> pyval list)" where
  "try_page resp all_features =
     (case resp of
        Failed \<Rightarrow> Inl RequestException
      | Body data \<Rightarrow>
          and_then (py_in (str_lit ''error'') data) (\<lambda>err.
            if err then Inr (False, all_features)
            else
          and_then (dict_get data (str_lit ''features'') (PList [])) (\<lambda>features.
            if \<not> truthy features then Inr (False, all_features)
            else
          and_then (py_iter features) (\<lambda>items.
            if length items < page_size then Inr (False, all_features @ items)
            else Inr (True, all_features @ items)))))"

text \<open>
  The \<open>while True\<close> loop. An exception in the \<open>try\<close> block is caught and ends the loop with
  \<open>all_features\<close> as it was. \<open>requested\<close> lists the offsets asked for so far; a service
  that always answers with full pages keeps the loop running (\<open>None\<close>).
\<close>

partial_function (option) fetch_loop ::
  "(nat \<Rightarrow> response) \<Rightarrow> nat \<Rightarrow> pyval list \<Rightarrow> nat list \<Rightarrow> (pyval list \<times> nat list) option" where
  "fetch_loop server offset all_features requested =
     (case try_page (server offset) all_features of
        Inl e \<Rightarrow> Some (all_features, requested @ [offset])
      | Inr (go_on, all_features') \<Rightarrow>
          if go_on
          then fetch_loop server (offset + page_size) all_features' (requested @ [offset])
          else Some (all_features', requested @ [offset]))"

definition fetch_all_shelters :: "(nat \<Rightarrow> response) \<Rightarrow> pyval list option" where
  "fetch_all_shelters server = map_option fst (fetch_loop server 0 [] [])"

section \<open>The main program\<close>

text \<open>
  How the process ends: \<open>exit(n)\<close> was called, an exception reached the top level
  (Python prints the traceback and the exit status is 1), or the script ran to its end
  with the document written to the output file (exit status 0). The script has no
  \<open>try\<close> outside the fetch loop. Printing to the console is taken to succeed.
\<close>

datatype outcome = Exit nat | Uncaught pyerr | Done geojson

fun exit_code :: "outcome \<Rightarrow> nat" where
  "exit_code (Exit n) = n"
| "exit_code (Uncaught e) = 1"
| "exit_code (Done doc) = 0"

definition after_fetch :: "runtime \<Rightarrow> pyval list \<Rightarrow> outcome" where
  "after_fetch rt arcgis_features =
     (if arcgis_features = [] then Exit 1
      else case convert_to_app_format rt arcgis_features of
             Inl e \<Rightarrow> Uncaught e
           | Inr doc \<Rightarrow> (case io_error rt of Some e \<Rightarrow> Uncaught e | None \<Rightarrow> Done doc))"

definition main :: "runtime \<Rightarrow> (nat \<Rightarrow> response) \<Rightarrow> outcome option" where
  "main rt server = map_option (after_fetch rt) (fetch_all_shelters server)"

section \<open>Reading raw records and output features\<close>

text \<open>
  The geometry of a raw record as the loop reads it (\<open>{}\<close> when the key is absent), the
  test the loop applies to it, and an attribute of the record by name.
\<close>

definition geometry_of :: "pyval \<Rightarrow> pyval" where
  "geometry_of f =
     (case f of
        PDict kvs \<Rightarrow> (case map_of kvs (str_lit ''geometry'') of Some g \<Rightarrow> g | None \<Rightarrow> PDict [])
      | _ \<Rightarrow> PNone)"

definition has_key :: "pystr \<Rightarrow> pyval \<Rightarrow> bool" where
  "has_key k c = (py_in k c = Inr True)"

definition retained :: "pyval \<Rightarrow> bool" where
  "retained f =
     (has_key (str_lit ''x'') (geometry_of f) \<and> has_key (str_lit ''y'') (geometry_of f))"

definition attribute :: "pyval \<Rightarrow> pystr \<Rightarrow> pyval option" where
  "attribute f k =
     (case dict_get f (str_lit ''attributes'') (PDict []) of
        Inr (PDict a) \<Rightarrow> map_of a k
      | _ \<Rightarrow> None)"

definition romnrs :: "geojson \<Rightarrow> nat list" where
  "romnrs doc = map (\<lambda>ft. romnr (feature_properties ft)) (coll_features doc)"

definition has_swedish :: "feature \<Rightarrow> bool" where
  "has_swedish ft =
     (case adresse (feature_properties ft) of PStr s \<Rightarrow> any_swedish s | _ \<Rightarrow> False)"

text \<open>A source capacity that is absent, null or a number that is not negative.\<close>

fun nonneg_capacity :: "pyval option \<Rightarrow> bool" where
  "nonneg_capacity None = True"
| "nonneg_capacity (Some PNone) = True"
| "nonneg_capacity (Some (PBool b)) = True"
| "nonneg_capacity (Some (PInt n)) = (0 \<le> n)"
| "nonneg_capacity (Some (PFloat (Finite r))) = (0 \<le> r)"
| "nonneg_capacity (Some v) = False"

text \<open>Feature \<open>ft\<close> is what the loop body builds from record \<open>f\<close> at index \<open>idx\<close>.\<close>

definition emits :: "runtime \<Rightarrow> nat \<Rightarrow> pyval \<Rightarrow> feature \<Rightarrow> bool" where
  "emits rt idx f ft =
     (\<exists>attrs geom lon lat address0 capacity0 p.
        dict_get f (str_lit ''attributes'') (PDict []) = Inr attrs \<and>
        dict_get f (str_lit ''geometry'') (PDict []) = Inr geom \<and>
        py_getitem geom (str_lit ''x'') = Inr lon \<and>
        py_getitem geom (str_lit ''y'') = Inr lat \<and>
        dict_get attrs (str_lit ''Gatuadress'') (PStr placeholder) = Inr address0 \<and>
        dict_get attrs (str_lit ''AntalPlatser'') (PInt 0) = Inr capacity0 \<and>
        plasser_of rt (none_to_zero capacity0) = Inr p \<and>
        ft = make_feature rt idx lon lat p
               (fst (address_block rt address0 \<lparr>features = [], swedish_char_count = 0\<rparr>)))"

section \<open>Example runs\<close>

text \<open>
  A run on 2024-01-01 whose file operations succeed. No example record has an address
  that is not a string or a capacity that is a string, so the two conversions of the
  runtime are never consulted.
\<close>

definition example_runtime :: runtime where
  "example_runtime =
     \<lparr>now_date = (\<lambda>idx. str_lit ''2024-01-01''), str_other = (\<lambda>v. []),
      int_of_str = (\<lambda>s. None), io_error = None\<rparr>"

definition raw_record :: "(pystr \<times> pyval) list \<Rightarrow> (pystr \<times> pyval) list \<Rightarrow> pyval" where
  "raw_record attrs geom =
     PDict [(str_lit ''attributes'', PDict attrs), (str_lit ''geometry'', PDict geom)]"

definition stockholm :: "(pystr \<times> pyval) list" where
  "stockholm = [(str_lit ''x'', PFloat (Finite (37 / 2))), (str_lit ''y'', PFloat (Finite (237 / 4)))]"

definition storgatan :: pyval where
  "storgatan =
     raw_record [(str_lit ''Gatuadress'', PStr (str_lit ''Storgatan 5'')),
                 (str_lit ''AntalPlatser'', PInt 40)] stockholm"

definition no_geometry :: pyval where
  "no_geometry =
     PDict [(str_lit ''attributes'',
             PDict [(str_lit ''Gatuadress'', PStr (str_lit ''Kungsgatan 1'')),
                    (str_lit ''AntalPlatser'', PInt 10)])]"

definition only_x :: pyval where
  "only_x =
     raw_record [(str_lit ''Gatuadress'', PStr (str_lit ''Kungsgatan 1'')),
                 (str_lit ''AntalPlatser'', PInt 10)]
       [(str_lit ''x'', PFloat (Finite (37 / 2)))]"

definition negative_capacity :: pyval where
  "negative_capacity =
     raw_record [(str_lit ''Gatuadress'', PStr (str_lit ''Storgatan 5'')),
                 (str_lit ''AntalPlatser'', PInt (- 5))] stockholm"

definition empty_address :: pyval where
  "empty_address =
     raw_record [(str_lit ''Gatuadress'', PStr []), (str_lit ''AntalPlatser'', PInt 40)] stockholm"

definition no_attributes :: pyval where
  "no_attributes = PDict [(str_lit ''geometry'', PDict stockholm)]"

text \<open>
  The address \<open>" Vastra vagen 2 "\<close>, where each \<open>a\<close> after \<open>V\<close> and \<open>v\<close> carries a
  diaeresis (U+00E4) and a blank stands at either end; the capacity is null.
\<close>

definition vastra_vagen :: pyval where
  "vastra_vagen =
     raw_record [(str_lit ''Gatuadress'',
                  PStr (str_lit '' V'' @ [0xE4] @ str_lit ''stra v'' @ [0xE4] @ str_lit ''gen 2 '')),
                 (str_lit ''AntalPlatser'', PNone)] stockholm"

definition float_capacity :: pyval where
  "float_capacity =
     raw_record [(str_lit ''Gatuadress'', PStr (str_lit ''Storgatan 5'')),
                 (str_lit ''AntalPlatser'', PFloat (Finite (81 / 2)))] stockholm"

definition null_geometry :: pyval where
  "null_geometry = PDict [(str_lit ''geometry'', PNone)]"

definition example_feature :: "nat \<Rightarrow> int \<Rightarrow> pyval \<Rightarrow> feature" where
  "example_feature idx p a =
     make_feature example_runtime idx (PFloat (Finite (37 / 2))) (PFloat (Finite (237 / 4))) p a"

definition collection :: "feature list \<Rightarrow> geojson" where
  "collection fs =
     \<lparr>coll_type = str_lit ''FeatureCollection'', coll_name = str_lit ''Skyddsrum Sverige'',
      coll_features = fs\<rparr>"

text \<open>
  A service that answers every request with a page of one record, so that it always has
  more to give; and one whose single record has a null geometry.
\<close>

definition one_shelter_server :: "nat \<Rightarrow> response" where
  "one_shelter_server offset = Body (PDict [(str_lit ''features'', PList [storgatan])])"

definition null_geometry_server :: "nat \<Rightarrow> response" where
  "null_geometry_server offset = Body (PDict [(str_lit ''features'', PList [null_geometry])])"

section \<open>Auxiliary facts\<close>

lemma and_then_simps [simp]:
  "and_then (Inl e) f = Inl e"
  "and_then (Inr x) f = f x"
  by (simp_all add: and_then_def)

lemma and_then_InrE:
  assumes "and_then m f = Inr y"
  obtains x where "m = Inr x" and "f x = Inr y"
  using assms by (cases m) simp_all

lemma str_lit_eq [simp]: "(str_lit s = str_lit t) = (s = t)"
  by (simp add: str_lit_def inj_map_eq_map inj_on_def)

lemmas eval_defs =
  convert_to_app_format_def convert_state_def convert_step_def emit_feature_def has_xy_def
  enumerate_eq_zip Let_def py_str_def strip_def isspace_def swedish_chars_def placeholder_def
  example_runtime_def address_block_def any_swedish_def none_to_zero_def plasser_of_def
  raw_record_def stockholm_def example_feature_def collection_def str_lit_def

subsection \<open>One pass of the loop\<close>

lemma has_xy_retained:
  "dict_get f (str_lit ''geometry'') (PDict []) = Inr g \<Longrightarrow> has_xy g = Inr b \<Longrightarrow> b = retained f"
  by (cases f) (auto simp: retained_def geometry_of_def has_key_def has_xy_def
      elim!: and_then_InrE split: option.splits if_splits)

lemma address_block_fst: "fst (address_block rt a st) = fst (address_block rt a st0)"
  by (simp add: address_block_def Let_def)

lemma address_block_snd:
  "snd (address_block rt a st) =
     st\<lparr>swedish_char_count := swedish_char_count st +
        (case fst (address_block rt a st) of PStr s \<Rightarrow> if any_swedish s then 1 else 0 | _ \<Rightarrow> 0)\<rparr>"
  by (cases a) (auto simp add: address_block_def Let_def any_swedish_def list_ex_iff)

lemma has_swedish_make_feature:
  "has_swedish (make_feature rt idx lon lat p a) =
     (case a of PStr s \<Rightarrow> any_swedish s | _ \<Rightarrow> False)"
  by (simp add: has_swedish_def make_feature_def)

lemma emit_feature_Inr:
  assumes "emit_feature rt idx attrs geom st = Inr st'"
  shows "\<exists>lon lat address0 capacity0 p.
           py_getitem geom (str_lit ''x'') = Inr lon \<and>
           py_getitem geom (str_lit ''y'') = Inr lat \<and>
           dict_get attrs (str_lit ''Gatuadress'') (PStr placeholder) = Inr address0 \<and>
           dict_get attrs (str_lit ''AntalPlatser'') (PInt 0) = Inr capacity0 \<and>
           plasser_of rt (none_to_zero capacity0) = Inr p \<and>
           st' = (snd (address_block rt address0 st))
                   \<lparr>features := features (snd (address_block rt address0 st)) @
                      [make_feature rt idx lon lat p (fst (address_block rt address0 st))]\<rparr>"
  using assms unfolding emit_feature_def case_prod_beta
  by (elim and_then_InrE) (simp only: sum.inject, blast)

lemma convert_step_skip:
  assumes "convert_step rt idx f st = Inr st'" and "\<not> retained f"
  shows "st' = st"
  using assms unfolding convert_step_def
  by (elim and_then_InrE) (frule (1) has_xy_retained, simp)

lemma convert_step_emit:
  assumes "convert_step rt idx f st = Inr st'" and "retained f"
  shows "\<exists>ft. emits rt idx f ft \<and>
            st' = \<lparr>features = features st @ [ft],
                   swedish_char_count = swedish_char_count st + (if has_swedish ft then 1 else 0)\<rparr>"
proof -
  from assms(1) obtain attrs geom both where
    A: "dict_get f (str_lit ''attributes'') (PDict []) = Inr attrs"
    and G: "dict_get f (str_lit ''geometry'') (PDict []) = Inr geom"
    and B: "has_xy geom = Inr both"
    and R: "(if both then emit_feature rt idx attrs geom st else Inr st) = Inr st'"
    unfolding convert_step_def by (elim and_then_InrE)
  from has_xy_retained [OF G B] assms(2) have "both" by simp
  with R have "emit_feature rt idx attrs geom st = Inr st'" by simp
  from emit_feature_Inr [OF this] obtain lon lat address0 capacity0 p where
    X: "py_getitem geom (str_lit ''x'') = Inr lon"
    and Y: "py_getitem geom (str_lit ''y'') = Inr lat"
    and AD: "dict_get attrs (str_lit ''Gatuadress'') (PStr placeholder) = Inr address0"
    and CP: "dict_get attrs (str_lit ''AntalPlatser'') (PInt 0) = Inr capacity0"
    and P: "plasser_of rt (none_to_zero capacity0) = Inr p"
    and S: "st' = (snd (address_block rt address0 st))
                   \<lparr>features := features (snd (address_block rt address0 st)) @
                      [make_feature rt idx lon lat p (fst (address_block rt address0 st))]\<rparr>"
    by blast
  let ?a = "fst (address_block rt address0 \<lparr>features = [], swedish_char_count = 0\<rparr>)"
  let ?ft = "make_feature rt idx lon lat p ?a"
  have fst_eq: "fst (address_block rt address0 st) = ?a"
    by (rule address_block_fst)
  have "emits rt idx f ?ft"
    unfolding emits_def using A G X Y AD CP P by blast
  moreover have "st' = \<lparr>features = features st @ [?ft],
       swedish_char_count = swedish_char_count st + (if has_swedish ?ft then 1 else 0)\<rparr>"
    unfolding S address_block_snd [of rt address0 st] fst_eq has_swedish_make_feature
    by (cases ?a) simp_all
  ultimately show ?thesis by blast
qed

subsection \<open>The whole loop\<close>

lemma convert_loop_run:
  assumes "convert_loop rt ixs st = Inr st'"
  shows "\<exists>fs. list_all2 (\<lambda>ft (i, f). emits rt i f ft) fs (filter (\<lambda>(i, f). retained f) ixs) \<and>
           features st' = features st @ fs \<and>
           swedish_char_count st' = swedish_char_count st + length (filter has_swedish fs)"
  using assms
proof (induction ixs arbitrary: st)
  case Nil
  then show ?case by simp
next
  case (Cons p ixs)
  obtain i f where p: "p = (i, f)" by (cases p)
  from Cons.prems obtain st1 where
    step: "convert_step rt i f st = Inr st1" and rest: "convert_loop rt ixs st1 = Inr st'"
    unfolding p by (auto elim: and_then_InrE)
  from Cons.IH [OF rest] obtain fs where
    fs: "list_all2 (\<lambda>ft (i, f). emits rt i f ft) fs (filter (\<lambda>(i, f). retained f) ixs)"
    and ft: "features st' = features st1 @ fs"
    and cn: "swedish_char_count st' = swedish_char_count st1 + length (filter has_swedish fs)"
    by blast
  show ?case
  proof (cases "retained f")
    case False
    with convert_step_skip [OF step] have "st1 = st" by simp
    with fs ft cn False show ?thesis unfolding p by auto
  next
    case True
    from convert_step_emit [OF step True] obtain ft0 where
      e: "emits rt i f ft0"
      and s1: "st1 = \<lparr>features = features st @ [ft0],
                   swedish_char_count = swedish_char_count st + (if has_swedish ft0 then 1 else 0)\<rparr>"
      by blast
    have "list_all2 (\<lambda>ft (i, f). emits rt i f ft) (ft0 # fs)
            (filter (\<lambda>(i, f). retained f) (p # ixs))"
      using fs e True unfolding p by simp
    moreover have "features st' = features st @ (ft0 # fs)"
      using ft s1 by simp
    moreover have "swedish_char_count st' =
        swedish_char_count st + length (filter has_swedish (ft0 # fs))"
      using cn s1 by simp
    ultimately show ?thesis by blast
  qed
qed

lemma enumerate_nth: "enumerate 0 xs = map (\<lambda>k. (k, xs ! k)) [0..<length xs]"
proof -
  have "enumerate 0 (map ((!) xs) [0..<length xs]) = map (\<lambda>k. (k, xs ! k)) [0..<length xs]"
    by (rule enumerate_map_upt)
  then show ?thesis by (simp add: map_nth)
qed

lemma retained_enumerate:
  "filter (\<lambda>(i, f). retained f) (enumerate 0 xs) =
     map (\<lambda>k. (k, xs ! k)) (filter (\<lambda>k. retained (xs ! k)) [0..<length xs])"
  by (simp add: enumerate_nth filter_map comp_def)

lemma convert_state_run:
  assumes "convert_state rt xs = Inr st"
  shows "list_all2 (\<lambda>ft k. emits rt k (xs ! k) ft) (features st)
           (filter (\<lambda>k. retained (xs ! k)) [0..<length xs]) \<and>
         swedish_char_count st = length (filter has_swedish (features st))"
  using convert_loop_run [OF assms [unfolded convert_state_def]]
  by (auto simp: retained_enumerate list_all2_map2)

lemma convert_Inr:
  assumes "convert_to_app_format rt xs = Inr doc"
  shows "\<exists>st. convert_state rt xs = Inr st \<and> doc = collection (features st)"
  using assms unfolding convert_to_app_format_def collection_def
  by (elim and_then_InrE) auto

lemma convert_run:
  assumes "convert_to_app_format rt xs = Inr doc"
  shows "list_all2 (\<lambda>ft k. emits rt k (xs ! k) ft) (coll_features doc)
           (filter (\<lambda>k. retained (xs ! k)) [0..<length xs])"
  using convert_Inr [OF assms] convert_state_run [of rt xs]
  by (auto simp: collection_def)

lemma list_all2_map_eq: "list_all2 (\<lambda>a b. f a = b) xs ys \<Longrightarrow> map f xs = ys"
  by (induction rule: list_all2_induct) simp_all

lemma emits_romnr: "emits rt idx f ft \<Longrightarrow> romnr (feature_properties ft) = idx"
  by (auto simp: emits_def make_feature_def)

lemma convert_romnrs:
  assumes "convert_to_app_format rt xs = Inr doc"
  shows "romnrs doc = filter (\<lambda>k. retained (xs ! k)) [0..<length xs]"
proof -
  have "list_all2 (\<lambda>ft k. romnr (feature_properties ft) = k) (coll_features doc)
          (filter (\<lambda>k. retained (xs ! k)) [0..<length xs])"
    using convert_run [OF assms] by (rule list_all2_mono) (rule emits_romnr)
  then show ?thesis
    unfolding romnrs_def by (rule list_all2_map_eq)
qed

lemma convert_source:
  assumes "convert_to_app_format rt xs = Inr doc" and "ft \<in> set (coll_features doc)"
  shows "romnr (feature_properties ft) < length xs \<and>
         retained (xs ! romnr (feature_properties ft)) \<and>
         emits rt (romnr (feature_properties ft)) (xs ! romnr (feature_properties ft)) ft"
proof -
  let ?ks = "filter (\<lambda>k. retained (xs ! k)) [0..<length xs]"
  from assms(2) obtain j where j: "j < length (coll_features doc)" and ft: "coll_features doc ! j = ft"
    by (auto simp: in_set_conv_nth)
  from convert_run [OF assms(1)] j ft
  have len: "j < length ?ks" and e: "emits rt (?ks ! j) (xs ! (?ks ! j)) ft"
    by (auto simp: list_all2_conv_all_nth)
  from emits_romnr [OF e] have r: "romnr (feature_properties ft) = ?ks ! j" .
  from len have "?ks ! j \<in> set ?ks" by (rule nth_mem)
  then have "?ks ! j < length xs \<and> retained (xs ! (?ks ! j))" by simp
  with e r show ?thesis by simp
qed

subsection \<open>The example runs\<close>

lemma gap_run:
  "convert_to_app_format example_runtime [no_geometry, storgatan] =
     Inr (collection [example_feature 1 40 (PStr (str_lit ''Storgatan 5''))])"
  by (simp add: eval_defs no_geometry_def storgatan_def make_feature_def)


lemma negative_run:
  "convert_to_app_format example_runtime [negative_capacity] =
     Inr (collection [example_feature 0 (- 5) (PStr (str_lit ''Storgatan 5''))])"
  by (simp add: eval_defs negative_capacity_def make_feature_def)

lemma only_x_run:
  "convert_to_app_format example_runtime [only_x, storgatan] =
     Inr (collection [example_feature 1 40 (PStr (str_lit ''Storgatan 5''))])"
  by (simp add: eval_defs only_x_def storgatan_def make_feature_def)

lemma storgatan_run:
  "convert_to_app_format example_runtime [storgatan] =
     Inr (collection [example_feature 0 40 (PStr (str_lit ''Storgatan 5''))])"
  by (simp add: eval_defs storgatan_def make_feature_def)

lemma retained_examples:
  "retained storgatan" "\<not> retained no_geometry" "\<not> retained only_x"
  by (simp_all add: retained_def geometry_of_def has_key_def storgatan_def no_geometry_def
      only_x_def raw_record_def stockholm_def)

section \<open>Numbering of the output features\<close>

text \<open>
  C1 (as amended). The \<open>romnr\<close> of each output feature is the 0-based position of its
  record in the input sequence: the \<open>romnr\<close> values, in emission order, are the input
  positions of the records that have both geometry fields. A skipped record therefore
  leaves a gap, and the values are 0, 1, 2, ... exactly as far as no record was skipped;
  when every record is retained they are the output positions.
\<close>

theorem romnr_is_input_position:
  assumes "convert_to_app_format rt xs = Inr doc"
  shows "romnrs doc = filter (\<lambda>k. retained (xs ! k)) [0..<length xs] \<and>
         ((\<forall>f \<in> set xs. retained f) \<longrightarrow> romnrs doc = [0..<length (coll_features doc)])"
proof -
  have eq: "romnrs doc = filter (\<lambda>k. retained (xs ! k)) [0..<length xs]"
    using assms by (rule convert_romnrs)
  have "romnrs doc = [0..<length (coll_features doc)]" if all: "\<forall>f \<in> set xs. retained f"
  proof -
    have "filter (\<lambda>k. retained (xs ! k)) [0..<length xs] = [0..<length xs]"
      using all by (intro filter_True) simp
    with eq have r: "romnrs doc = [0..<length xs]" by simp
    then have "length (romnrs doc) = length xs" by simp
    then have "length (coll_features doc) = length xs" by (simp add: romnrs_def)
    with r show ?thesis by simp
  qed
  with eq show ?thesis by blast
qed

theorem romnr_is_input_position_witness:
  "convert_to_app_format example_runtime [no_geometry, storgatan] =
     Inr (collection [example_feature 1 40 (PStr (str_lit ''Storgatan 5''))]) \<and>
   romnrs (collection [example_feature 1 40 (PStr (str_lit ''Storgatan 5''))]) = [1] \<and>
   convert_to_app_format example_runtime [storgatan] =
     Inr (collection [example_feature 0 40 (PStr (str_lit ''Storgatan 5''))]) \<and>
   retained storgatan \<and>
   romnrs (collection [example_feature 0 40 (PStr (str_lit ''Storgatan 5''))]) = [0..<1]"
  using romnr_is_input_position [OF gap_run] romnr_is_input_position [OF storgatan_run]
    gap_run storgatan_run retained_examples
  by (simp add: collection_def)

text \<open>
  The claim as written fails: after one skipped record, the feature at output position 0
  carries \<open>romnr\<close> 1.
\<close>

theorem romnr_output_position_counterexample:
  "convert_to_app_format example_runtime [no_geometry, storgatan] =
     Inr (collection [example_feature 1 40 (PStr (str_lit ''Storgatan 5''))]) \<and>
   romnrs (collection [example_feature 1 40 (PStr (str_lit ''Storgatan 5''))]) = [1]"
  using gap_run by (simp add: romnrs_def collection_def example_feature_def make_feature_def)

text \<open>
  C10. The \<open>romnr\<close> values of the output features are strictly increasing, and each is
  the position of a record of the input that has both geometry fields.
\<close>

theorem romnr_strictly_increasing:
  assumes "convert_to_app_format rt xs = Inr doc"
  shows "sorted_wrt (<) (romnrs doc) \<and>
         (\<forall>r \<in> set (romnrs doc). r < length xs \<and> retained (xs ! r))"
proof -
  have eq: "romnrs doc = filter (\<lambda>k. retained (xs ! k)) [0..<length xs]"
    using assms by (rule convert_romnrs)
  have "sorted_wrt (<) (filter (\<lambda>k. retained (xs ! k)) [0..<length xs])"
    by (rule sorted_wrt_filter) (rule sorted_wrt_upt)
  with eq show ?thesis by simp
qed

theorem romnr_strictly_increasing_witness:
  "convert_to_app_format example_runtime [no_geometry, storgatan] =
     Inr (collection [example_feature 1 40 (PStr (str_lit ''Storgatan 5''))]) \<and>
   sorted_wrt (<) (romnrs (collection [example_feature 1 40 (PStr (str_lit ''Storgatan 5''))])) \<and>
   1 \<in> set (romnrs (collection [example_feature 1 40 (PStr (str_lit ''Storgatan 5''))])) \<and>
   1 < length [no_geometry, storgatan] \<and> retained ([no_geometry, storgatan] ! 1)"
proof -
  let ?doc = "collection [example_feature 1 40 (PStr (str_lit ''Storgatan 5''))]"
  have m: "1 \<in> set (romnrs ?doc)"
    by (simp add: romnrs_def collection_def example_feature_def make_feature_def)
  from romnr_strictly_increasing [OF gap_run] m gap_run show ?thesis by blast
qed

section \<open>Which records are retained\<close>

text \<open>
  C2 (as amended). The transformer produces exactly one feature per record whose geometry
  has both the \<open>x\<close> and the \<open>y\<close> field, and skips every other record: a record that lacks
  either field is skipped, also when it has the other one.
\<close>

theorem one_feature_per_record_with_x_and_y:
  assumes "convert_to_app_format rt xs = Inr doc"
  shows "length (coll_features doc) = length (filter retained xs) \<and>
         distinct (romnrs doc) \<and>
         (\<forall>k < length xs.
            (k \<in> set (romnrs doc)) =
            (has_key (str_lit ''x'') (geometry_of (xs ! k)) \<and>
             has_key (str_lit ''y'') (geometry_of (xs ! k))))"
proof -
  have eq: "romnrs doc = filter (\<lambda>k. retained (xs ! k)) [0..<length xs]"
    using assms by (rule convert_romnrs)
  have "filter retained (map ((!) xs) [0..<length xs]) =
        map ((!) xs) (filter (\<lambda>k. retained (xs ! k)) [0..<length xs])"
    by (simp add: filter_map comp_def)
  then have "length (filter retained xs) =
             length (filter (\<lambda>k. retained (xs ! k)) [0..<length xs])"
    by (simp add: map_nth)
  moreover have "length (coll_features doc) = length (romnrs doc)"
    by (simp add: romnrs_def)
  ultimately have len: "length (coll_features doc) = length (filter retained xs)"
    using eq by simp
  have dist: "distinct (romnrs doc)"
    unfolding eq by simp
  have mem: "\<forall>k < length xs.
            (k \<in> set (romnrs doc)) =
            (has_key (str_lit ''x'') (geometry_of (xs ! k)) \<and>
             has_key (str_lit ''y'') (geometry_of (xs ! k)))"
    unfolding eq by (simp add: retained_def)
  from len dist mem show ?thesis by blast
qed

theorem one_feature_per_record_with_x_and_y_witness:
  "convert_to_app_format example_runtime [only_x, storgatan] =
     Inr (collection [example_feature 1 40 (PStr (str_lit ''Storgatan 5''))]) \<and>
   length (coll_features (collection [example_feature 1 40 (PStr (str_lit ''Storgatan 5''))])) =
     length (filter retained [only_x, storgatan]) \<and>
   (0 \<in> set (romnrs (collection [example_feature 1 40 (PStr (str_lit ''Storgatan 5''))]))) =
     (has_key (str_lit ''x'') (geometry_of only_x) \<and> has_key (str_lit ''y'') (geometry_of only_x)) \<and>
   (1 \<in> set (romnrs (collection [example_feature 1 40 (PStr (str_lit ''Storgatan 5''))]))) =
     (has_key (str_lit ''x'') (geometry_of storgatan) \<and> has_key (str_lit ''y'') (geometry_of storgatan))"
proof -
  let ?doc = "collection [example_feature 1 40 (PStr (str_lit ''Storgatan 5''))]"
  note t = one_feature_per_record_with_x_and_y [OF only_x_run]
  from t have "length (coll_features ?doc) = length (filter retained [only_x, storgatan])"
    by blast
  moreover from t have "(0 \<in> set (romnrs ?doc)) =
     (has_key (str_lit ''x'') (geometry_of ([only_x, storgatan] ! 0)) \<and>
      has_key (str_lit ''y'') (geometry_of ([only_x, storgatan] ! 0)))"
    by simp
  moreover from t have "(1 \<in> set (romnrs ?doc)) =
     (has_key (str_lit ''x'') (geometry_of ([only_x, storgatan] ! 1)) \<and>
      has_key (str_lit ''y'') (geometry_of ([only_x, storgatan] ! 1)))"
    by simp
  ultimately show ?thesis using only_x_run by simp
qed

text \<open>
  The claim as written fails: a record whose geometry has \<open>x\<close> but no \<open>y\<close> is skipped.
\<close>

theorem x_without_y_counterexample:
  "has_key (str_lit ''x'') (geometry_of only_x) \<and>
   convert_to_app_format example_runtime [only_x] = Inr (collection [])"
  by (simp add: eval_defs only_x_def has_key_def geometry_of_def)


section \<open>The fields of an output feature\<close>

lemma dict_get_attribute:
  assumes "dict_get f (str_lit ''attributes'') (PDict []) = Inr attrs"
    and "dict_get attrs k d = Inr v"
  shows "v = (case attribute f k of Some w \<Rightarrow> w | None \<Rightarrow> d)"
  using assms by (cases attrs) (simp_all add: attribute_def)

lemma emits_adresse:
  assumes "emits rt idx f ft"
  shows "adresse (feature_properties ft) =
           fst (address_block rt
             (case attribute f (str_lit ''Gatuadress'') of Some w \<Rightarrow> w | None \<Rightarrow> PStr placeholder)
             \<lparr>features = [], swedish_char_count = 0\<rparr>)"
  using assms unfolding emits_def
  by (auto simp: make_feature_def dest: dict_get_attribute)

lemma emits_plasser:
  assumes "emits rt idx f ft"
  shows "plasser_of rt (none_to_zero
           (case attribute f (str_lit ''AntalPlatser'') of Some w \<Rightarrow> w | None \<Rightarrow> PInt 0)) =
         Inr (plasser (feature_properties ft))"
  using assms unfolding emits_def
  by (auto simp: make_feature_def dest: dict_get_attribute)

lemma dict_get_geometry:
  "dict_get f (str_lit ''geometry'') (PDict []) = Inr geom \<Longrightarrow> geometry_of f = geom"
  by (cases f) (auto simp: geometry_of_def)

lemma py_getitem_Inr:
  "py_getitem c k = Inr v \<Longrightarrow> \<exists>g. c = PDict g \<and> map_of g k = Some v"
  by (cases c) (auto split: option.splits)

lemma emits_coordinates:
  assumes "emits rt idx f ft"
  shows "\<exists>g vx vy. geometry_of f = PDict g \<and>
           map_of g (str_lit ''x'') = Some vx \<and> map_of g (str_lit ''y'') = Some vy \<and>
           coordinates (feature_geometry ft) = [vx, vy]"
proof -
  from assms obtain geom lon lat p a where
    G: "dict_get f (str_lit ''geometry'') (PDict []) = Inr geom"
    and X: "py_getitem geom (str_lit ''x'') = Inr lon"
    and Y: "py_getitem geom (str_lit ''y'') = Inr lat"
    and F: "ft = make_feature rt idx lon lat p a"
    unfolding emits_def by blast
  from py_getitem_Inr [OF X] py_getitem_Inr [OF Y] obtain g where
    "geom = PDict g" "map_of g (str_lit ''x'') = Some lon" "map_of g (str_lit ''y'') = Some lat"
    by auto
  with dict_get_geometry [OF G] F show ?thesis
    by (simp add: make_feature_def)
qed

lemma strip_placeholder: "strip placeholder = placeholder"
  by (simp add: strip_def placeholder_def isspace_def str_lit_def)

lemma py_int_falsy:
  assumes "\<not> truthy v" and "py_int rt v = Inr n"
  shows "n = 0"
proof (cases v)
  case (PFloat x)
  with assms show ?thesis by (cases x) auto
qed (use assms in \<open>auto split: if_splits\<close>)

lemma plasser_of_nonneg:
  assumes "plasser_of rt (none_to_zero (case c of Some w \<Rightarrow> w | None \<Rightarrow> PInt 0)) = Inr p"
    and "nonneg_capacity c"
  shows "0 \<le> p"
proof (cases c)
  case None
  with assms show ?thesis by (simp add: none_to_zero_def plasser_of_def)
next
  case (Some v)
  show ?thesis
  proof (cases v)
    case (PFloat x)
    with assms Some show ?thesis
      by (cases x) (auto simp: none_to_zero_def plasser_of_def zero_le_floor split: if_splits)
  qed (use assms Some in \<open>auto simp: none_to_zero_def plasser_of_def split: if_splits\<close>)
qed

lemma address_run:
  "convert_to_app_format example_runtime [empty_address, no_attributes, vastra_vagen] =
     Inr (collection
       [example_feature 0 40 (PStr []),
        example_feature 1 0 (PStr placeholder),
        example_feature 2 0
          (PStr (str_lit ''V'' @ [0xE4] @ str_lit ''stra v'' @ [0xE4] @ str_lit ''gen 2''))])"
  by (simp add: eval_defs empty_address_def no_attributes_def vastra_vagen_def make_feature_def)

lemma capacity_run:
  "convert_to_app_format example_runtime [vastra_vagen, float_capacity, no_attributes] =
     Inr (collection
       [example_feature 0 0
          (PStr (str_lit ''V'' @ [0xE4] @ str_lit ''stra v'' @ [0xE4] @ str_lit ''gen 2'')),
        example_feature 1 40 (PStr (str_lit ''Storgatan 5'')),
        example_feature 2 0 (PStr placeholder)])"
  by (simp add: eval_defs vastra_vagen_def float_capacity_def no_attributes_def make_feature_def
      floor_eq_iff)

lemma example_feature_simps [simp]:
  "romnr (feature_properties (example_feature idx p a)) = idx"
  "plasser (feature_properties (example_feature idx p a)) = p"
  "adresse (feature_properties (example_feature idx p a)) = a"
  "coordinates (feature_geometry (example_feature idx p a)) =
     [PFloat (Finite (37 / 2)), PFloat (Finite (237 / 4))]"
  by (simp_all add: example_feature_def make_feature_def)

lemma example_attributes:
  "attribute storgatan (str_lit ''AntalPlatser'') = Some (PInt 40)"
  "attribute negative_capacity (str_lit ''AntalPlatser'') = Some (PInt (- 5))"
  "attribute float_capacity (str_lit ''AntalPlatser'') = Some (PFloat (Finite (81 / 2)))"
  "attribute vastra_vagen (str_lit ''AntalPlatser'') = Some PNone"
  "attribute no_attributes (str_lit ''AntalPlatser'') = None"
  "attribute no_attributes (str_lit ''Gatuadress'') = None"
  "attribute empty_address (str_lit ''Gatuadress'') = Some (PStr [])"
  "attribute vastra_vagen (str_lit ''Gatuadress'') =
     Some (PStr (str_lit '' V'' @ [0xE4] @ str_lit ''stra v'' @ [0xE4] @ str_lit ''gen 2 ''))"
  by (simp_all add: attribute_def storgatan_def negative_capacity_def float_capacity_def
      vastra_vagen_def no_attributes_def empty_address_def raw_record_def)

text \<open>
  C3 (as amended). The capacity of an output feature is an integer, and it is not negative
  whenever the capacity attribute of its source record is absent, null or a number that
  is not negative. (A negative source capacity is passed on as it is.)
\<close>

theorem plasser_nonneg_for_nonneg_source:
  assumes "convert_to_app_format rt xs = Inr doc"
    and "ft \<in> set (coll_features doc)"
    and "nonneg_capacity (attribute (xs ! romnr (feature_properties ft)) (str_lit ''AntalPlatser''))"
  shows "0 \<le> plasser (feature_properties ft)"
proof -
  let ?c = "attribute (xs ! romnr (feature_properties ft)) (str_lit ''AntalPlatser'')"
  from convert_source [OF assms(1,2)]
  have "emits rt (romnr (feature_properties ft)) (xs ! romnr (feature_properties ft)) ft"
    by blast
  from emits_plasser [OF this]
  have p: "plasser_of rt (none_to_zero (case ?c of Some w \<Rightarrow> w | None \<Rightarrow> PInt 0)) =
           Inr (plasser (feature_properties ft))" .
  from plasser_of_nonneg [OF p assms(3)] show ?thesis .
qed

theorem plasser_nonneg_for_nonneg_source_witness:
  "convert_to_app_format example_runtime [vastra_vagen, float_capacity, no_attributes] =
     Inr (collection
       [example_feature 0 0
          (PStr (str_lit ''V'' @ [0xE4] @ str_lit ''stra v'' @ [0xE4] @ str_lit ''gen 2'')),
        example_feature 1 40 (PStr (str_lit ''Storgatan 5'')),
        example_feature 2 0 (PStr placeholder)]) \<and>
   nonneg_capacity (attribute float_capacity (str_lit ''AntalPlatser'')) \<and>
   0 \<le> plasser (feature_properties (example_feature 1 40 (PStr (str_lit ''Storgatan 5''))))"
proof -
  let ?ft = "example_feature 1 40 (PStr (str_lit ''Storgatan 5''))"
  have n: "nonneg_capacity (attribute float_capacity (str_lit ''AntalPlatser''))"
    by (simp add: example_attributes)
  have "0 \<le> plasser (feature_properties ?ft)"
    by (rule plasser_nonneg_for_nonneg_source [OF capacity_run])
       (simp_all add: collection_def example_attributes)
  with n capacity_run show ?thesis by blast
qed

text \<open>
  The claim as written fails: a source capacity of \<open>-5\<close> gives the output capacity \<open>-5\<close>.
\<close>

theorem negative_plasser_counterexample:
  "convert_to_app_format example_runtime [negative_capacity] =
     Inr (collection [example_feature 0 (- 5) (PStr (str_lit ''Storgatan 5''))]) \<and>
   plasser (feature_properties (example_feature 0 (- 5) (PStr (str_lit ''Storgatan 5'')))) < 0"
  using negative_run by simp

text \<open>
  C6. When the capacity attribute of the source record is absent or null, the output
  capacity is 0; otherwise it is the value of the attribute coerced to an integer by
  \<open>int()\<close>: a truthy value is coerced, and a falsy one gives 0, which is its coercion
  wherever \<open>int()\<close> accepts it.
\<close>

theorem plasser_is_coerced_capacity:
  assumes "convert_to_app_format rt xs = Inr doc"
    and "ft \<in> set (coll_features doc)"
    and "c = attribute (xs ! romnr (feature_properties ft)) (str_lit ''AntalPlatser'')"
  shows "(c = None \<or> c = Some PNone \<longrightarrow> plasser (feature_properties ft) = 0) \<and>
         (\<forall>v. c = Some v \<longrightarrow> v \<noteq> PNone \<longrightarrow>
            (truthy v \<longrightarrow> py_int rt v = Inr (plasser (feature_properties ft))) \<and>
            (\<forall>n. py_int rt v = Inr n \<longrightarrow> plasser (feature_properties ft) = n))"
proof -
  from convert_source [OF assms(1,2)]
  have "emits rt (romnr (feature_properties ft)) (xs ! romnr (feature_properties ft)) ft"
    by blast
  from emits_plasser [OF this]
  have p: "plasser_of rt (none_to_zero (case c of Some w \<Rightarrow> w | None \<Rightarrow> PInt 0)) =
           Inr (plasser (feature_properties ft))"
    unfolding assms(3) .
  have a: "plasser (feature_properties ft) = 0" if "c = None \<or> c = Some PNone"
    using that p by (auto simp: none_to_zero_def plasser_of_def)
  have b: "py_int rt v = Inr (plasser (feature_properties ft))"
    if "c = Some v" "v \<noteq> PNone" "truthy v" for v
    using that p by (simp add: none_to_zero_def plasser_of_def)
  have d: "plasser (feature_properties ft) = n"
    if "c = Some v" "v \<noteq> PNone" "py_int rt v = Inr n" for v n
  proof (cases "truthy v")
    case True
    with b [OF that(1,2)] that(3) show ?thesis by simp
  next
    case False
    with that p have "plasser (feature_properties ft) = 0"
      by (simp add: none_to_zero_def plasser_of_def)
    with py_int_falsy [OF False that(3)] show ?thesis by simp
  qed
  from a b d show ?thesis by blast
qed

theorem plasser_is_coerced_capacity_witness:
  "convert_to_app_format example_runtime [vastra_vagen, float_capacity, no_attributes] =
     Inr (collection
       [example_feature 0 0
          (PStr (str_lit ''V'' @ [0xE4] @ str_lit ''stra v'' @ [0xE4] @ str_lit ''gen 2'')),
        example_feature 1 40 (PStr (str_lit ''Storgatan 5'')),
        example_feature 2 0 (PStr placeholder)]) \<and>
   attribute vastra_vagen (str_lit ''AntalPlatser'') = Some PNone \<and>
   plasser (feature_properties (example_feature 0 0
     (PStr (str_lit ''V'' @ [0xE4] @ str_lit ''stra v'' @ [0xE4] @ str_lit ''gen 2'')))) = 0 \<and>
   attribute float_capacity (str_lit ''AntalPlatser'') = Some (PFloat (Finite (81 / 2))) \<and>
   truthy (PFloat (Finite (81 / 2))) \<and>
   py_int example_runtime (PFloat (Finite (81 / 2))) =
     Inr (plasser (feature_properties (example_feature 1 40 (PStr (str_lit ''Storgatan 5'')))))"
proof -
  let ?v = "example_feature 0 0
     (PStr (str_lit ''V'' @ [0xE4] @ str_lit ''stra v'' @ [0xE4] @ str_lit ''gen 2''))"
  let ?s = "example_feature 1 40 (PStr (str_lit ''Storgatan 5''))"
  have "plasser (feature_properties ?v) = 0"
    using plasser_is_coerced_capacity [OF capacity_run, of ?v "Some PNone"]
    by (simp add: collection_def example_attributes)
  moreover have "py_int example_runtime (PFloat (Finite (81 / 2))) = Inr (plasser (feature_properties ?s))"
    using plasser_is_coerced_capacity [OF capacity_run, of ?s "Some (PFloat (Finite (81 / 2)))"]
    by (simp add: collection_def example_attributes)
  ultimately show ?thesis
    using capacity_run by (simp add: example_attributes)
qed

text \<open>
  C4 (as amended). When the address attribute of the source record is absent, the output
  address is the placeholder; when it is a string, the output address is that string
  with surrounding whitespace trimmed, so an empty string stays the empty string and is
  not replaced by the placeholder.
\<close>

theorem adresse_is_placeholder_or_trimmed:
  assumes "convert_to_app_format rt xs = Inr doc"
    and "ft \<in> set (coll_features doc)"
    and "a = attribute (xs ! romnr (feature_properties ft)) (str_lit ''Gatuadress'')"
  shows "(a = None \<longrightarrow> adresse (feature_properties ft) = PStr placeholder) \<and>
         (\<forall>s. a = Some (PStr s) \<longrightarrow> adresse (feature_properties ft) = PStr (strip s))"
proof -
  from convert_source [OF assms(1,2)]
  have "emits rt (romnr (feature_properties ft)) (xs ! romnr (feature_properties ft)) ft"
    by blast
  from emits_adresse [OF this]
  have e: "adresse (feature_properties ft) =
           fst (address_block rt (case a of Some w \<Rightarrow> w | None \<Rightarrow> PStr placeholder)
             \<lparr>features = [], swedish_char_count = 0\<rparr>)"
    unfolding assms(3) .
  have "adresse (feature_properties ft) = PStr placeholder" if "a = None"
    using e that by (simp add: address_block_def Let_def py_str_def strip_placeholder)
  moreover have "adresse (feature_properties ft) = PStr (strip s)" if "a = Some (PStr s)" for s
    using e that by (simp add: address_block_def Let_def py_str_def strip_def)
  ultimately show ?thesis by blast
qed

theorem adresse_is_placeholder_or_trimmed_witness:
  "convert_to_app_format example_runtime [empty_address, no_attributes, vastra_vagen] =
     Inr (collection
       [example_feature 0 40 (PStr []),
        example_feature 1 0 (PStr placeholder),
        example_feature 2 0
          (PStr (str_lit ''V'' @ [0xE4] @ str_lit ''stra v'' @ [0xE4] @ str_lit ''gen 2''))]) \<and>
   attribute no_attributes (str_lit ''Gatuadress'') = None \<and>
   adresse (feature_properties (example_feature 1 0 (PStr placeholder))) = PStr placeholder \<and>
   attribute vastra_vagen (str_lit ''Gatuadress'') =
     Some (PStr (str_lit '' V'' @ [0xE4] @ str_lit ''stra v'' @ [0xE4] @ str_lit ''gen 2 '')) \<and>
   adresse (feature_properties (example_feature 2 0
     (PStr (str_lit ''V'' @ [0xE4] @ str_lit ''stra v'' @ [0xE4] @ str_lit ''gen 2'')))) =
     PStr (strip (str_lit '' V'' @ [0xE4] @ str_lit ''stra v'' @ [0xE4] @ str_lit ''gen 2 ''))"
proof -
  let ?p = "example_feature 1 0 (PStr placeholder)"
  let ?v = "example_feature 2 0
     (PStr (str_lit ''V'' @ [0xE4] @ str_lit ''stra v'' @ [0xE4] @ str_lit ''gen 2''))"
  have "adresse (feature_properties ?p) = PStr placeholder"
    using adresse_is_placeholder_or_trimmed [OF address_run, of ?p None]
    by (simp add: collection_def example_attributes)
  moreover have "adresse (feature_properties ?v) =
     PStr (strip (str_lit '' V'' @ [0xE4] @ str_lit ''stra v'' @ [0xE4] @ str_lit ''gen 2 ''))"
    using adresse_is_placeholder_or_trimmed [OF address_run, of ?v
      "Some (PStr (str_lit '' V'' @ [0xE4] @ str_lit ''stra v'' @ [0xE4] @ str_lit ''gen 2 ''))"]
    by (simp add: collection_def example_attributes)
  ultimately show ?thesis
    using address_run by (simp add: example_attributes)
qed

text \<open>
  The claim as written fails: an empty source address gives an empty output address, not
  the placeholder.
\<close>

theorem empty_address_counterexample:
  "attribute empty_address (str_lit ''Gatuadress'') = Some (PStr []) \<and>
   convert_to_app_format example_runtime [empty_address] =
     Inr (collection [example_feature 0 40 (PStr [])]) \<and>
   adresse (feature_properties (example_feature 0 40 (PStr []))) \<noteq> PStr placeholder"
proof -
  have "convert_to_app_format example_runtime [empty_address] =
     Inr (collection [example_feature 0 40 (PStr [])])"
    by (simp add: eval_defs empty_address_def make_feature_def)
  moreover have "PStr [] \<noteq> PStr placeholder"
    by (simp add: placeholder_def)
  ultimately show ?thesis by (simp add: example_attributes)
qed

text \<open>
  C5. The coordinates of an output feature are the pair of the values found under \<open>x\<close>
  and \<open>y\<close> in the geometry of its source record, unchanged.
\<close>

theorem coordinates_are_source_x_y:
  assumes "convert_to_app_format rt xs = Inr doc"
    and "ft \<in> set (coll_features doc)"
  shows "\<exists>g vx vy.
           geometry_of (xs ! romnr (feature_properties ft)) = PDict g \<and>
           map_of g (str_lit ''x'') = Some vx \<and> map_of g (str_lit ''y'') = Some vy \<and>
           coordinates (feature_geometry ft) = [vx, vy]"
proof -
  from convert_source [OF assms]
  have "emits rt (romnr (feature_properties ft)) (xs ! romnr (feature_properties ft)) ft"
    by blast
  then show ?thesis by (rule emits_coordinates)
qed

theorem coordinates_are_source_x_y_witness:
  "convert_to_app_format example_runtime [no_geometry, storgatan] =
     Inr (collection [example_feature 1 40 (PStr (str_lit ''Storgatan 5''))]) \<and>
   geometry_of storgatan = PDict stockholm \<and>
   map_of stockholm (str_lit ''x'') = Some (PFloat (Finite (37 / 2))) \<and>
   map_of stockholm (str_lit ''y'') = Some (PFloat (Finite (237 / 4))) \<and>
   coordinates (feature_geometry (example_feature 1 40 (PStr (str_lit ''Storgatan 5'')))) =
     [PFloat (Finite (37 / 2)), PFloat (Finite (237 / 4))]"
proof -
  let ?ft = "example_feature 1 40 (PStr (str_lit ''Storgatan 5''))"
  have g: "geometry_of storgatan = PDict stockholm"
    by (simp add: geometry_of_def storgatan_def raw_record_def)
  have "?ft \<in> set (coll_features (collection [?ft]))"
    by (simp add: collection_def)
  from coordinates_are_source_x_y [OF gap_run this] obtain g' vx vy where
    "geometry_of ([no_geometry, storgatan] ! romnr (feature_properties ?ft)) = PDict g'"
    "map_of g' (str_lit ''x'') = Some vx" "map_of g' (str_lit ''y'') = Some vy"
    "coordinates (feature_geometry ?ft) = [vx, vy]"
    by blast
  with g have "map_of stockholm (str_lit ''x'') = Some vx \<and>
      map_of stockholm (str_lit ''y'') = Some vy \<and> coordinates (feature_geometry ?ft) = [vx, vy]"
    by simp
  with g gap_run show ?thesis by (simp add: stockholm_def)
qed

section \<open>The diagnostic counter\<close>

lemma address_block_fst_eq:
  "fst (address_block rt a st) = (if truthy a then PStr (strip (py_str rt a)) else a)"
  by (simp add: address_block_def Let_def)

lemma address_block_features: "features (snd (address_block rt a st)) = features st"
  by (simp add: address_block_def Let_def)

lemma emit_feature_features:
  assumes "features st' = features st"
  shows "map_sum id features (emit_feature rt idx attrs geom st') =
         map_sum id features (emit_feature rt idx attrs geom st)"
  using assms
  by (simp add: emit_feature_def and_then_def case_prod_beta address_block_fst_eq
      address_block_features split: sum.splits)

lemma convert_step_features:
  assumes "features st' = features st"
  shows "map_sum id features (convert_step rt idx f st') =
         map_sum id features (convert_step rt idx f st)"
  using assms emit_feature_features [OF assms]
  by (simp add: convert_step_def and_then_def split: sum.splits)

lemma convert_loop_features:
  assumes "features st' = features st"
  shows "map_sum id features (convert_loop rt ixs st') =
         map_sum id features (convert_loop rt ixs st)"
  using assms
proof (induction ixs arbitrary: st st')
  case Nil
  then show ?case by simp
next
  case (Cons p ixs)
  obtain i f where p: "p = (i, f)" by (cases p)
  note s = convert_step_features [OF Cons.prems, of rt i f]
  show ?case
  proof (cases "convert_step rt i f st")
    case (Inl e)
    with s have "convert_step rt i f st' = Inl e"
      by (cases "convert_step rt i f st'") simp_all
    with Inl show ?thesis unfolding p by simp
  next
    case (Inr s1)
    with s obtain s1' where s1': "convert_step rt i f st' = Inr s1'" and "features s1' = features s1"
      by (cases "convert_step rt i f st'") simp_all
    from Cons.IH [OF this(2)] Inr s1' show ?thesis unfolding p by simp
  qed
qed


lemma state_run:
  "convert_state example_runtime [empty_address, no_attributes, vastra_vagen, storgatan] =
     Inr \<lparr>features =
            [example_feature 0 40 (PStr []),
             example_feature 1 0 (PStr placeholder),
             example_feature 2 0
               (PStr (str_lit ''V'' @ [0xE4] @ str_lit ''stra v'' @ [0xE4] @ str_lit ''gen 2'')),
             example_feature 3 40 (PStr (str_lit ''Storgatan 5''))],
          swedish_char_count = 2\<rparr>"
  by (simp add: eval_defs empty_address_def no_attributes_def vastra_vagen_def storgatan_def
      make_feature_def)

text \<open>
  C8 (as amended). The counter goes up by one for each retained record whose output
  address is a string that holds at least one of six letters, the lowercase and the
  uppercase form of a-ring, a-diaeresis and o-diaeresis: at the end of the loop it is
  the number of such output features. The document that is returned is made of the
  features only, and is the same whatever value the counter starts from.
\<close>

theorem counter_counts_swedish_addresses:
  assumes "convert_state rt xs = Inr st"
  shows "swedish_char_count st = length (filter has_swedish (features st)) \<and>
         convert_to_app_format rt xs = Inr (collection (features st)) \<and>
         map_sum id features
           (convert_loop rt (enumerate 0 xs) \<lparr>features = [], swedish_char_count = c\<rparr>) =
         Inr (features st)"
proof -
  have n: "swedish_char_count st = length (filter has_swedish (features st))"
    using convert_state_run [OF assms] by blast
  have d: "convert_to_app_format rt xs = Inr (collection (features st))"
    using assms by (simp add: convert_to_app_format_def collection_def)
  have "map_sum id features
          (convert_loop rt (enumerate 0 xs) \<lparr>features = [], swedish_char_count = c\<rparr>) =
        map_sum id features
          (convert_loop rt (enumerate 0 xs) \<lparr>features = [], swedish_char_count = 0\<rparr>)"
    by (rule convert_loop_features) simp
  with assms have "map_sum id features
          (convert_loop rt (enumerate 0 xs) \<lparr>features = [], swedish_char_count = c\<rparr>) =
        Inr (features st)"
    by (simp add: convert_state_def)
  with n d show ?thesis by blast
qed

theorem counter_counts_swedish_addresses_witness:
  "convert_state example_runtime [empty_address, no_attributes, vastra_vagen, storgatan] =
     Inr \<lparr>features =
            [example_feature 0 40 (PStr []),
             example_feature 1 0 (PStr placeholder),
             example_feature 2 0
               (PStr (str_lit ''V'' @ [0xE4] @ str_lit ''stra v'' @ [0xE4] @ str_lit ''gen 2'')),
             example_feature 3 40 (PStr (str_lit ''Storgatan 5''))],
          swedish_char_count = 2\<rparr> \<and>
   length (filter has_swedish
     [example_feature 0 40 (PStr []),
      example_feature 1 0 (PStr placeholder),
      example_feature 2 0
        (PStr (str_lit ''V'' @ [0xE4] @ str_lit ''stra v'' @ [0xE4] @ str_lit ''gen 2'')),
      example_feature 3 40 (PStr (str_lit ''Storgatan 5''))]) = 2"
  using counter_counts_swedish_addresses [OF state_run, of 0] state_run by simp

text \<open>
  The claim as written fails: the letters that make the counter go up are six, not eight.
\<close>

theorem six_swedish_chars_counterexample:
  "length swedish_chars = 6 \<and> card (set swedish_chars) = 6"
  by (simp add: swedish_chars_def)


section \<open>The fetch loop\<close>

text \<open>
  C7. When the answer at the current offset is a page (a document with no error field)
  that holds fewer features than the page size, the loop ends there: the features of the
  page are appended to those accumulated so far, and the request at this offset is the
  last one made, whatever the service would answer at later offsets.
\<close>

theorem short_page_is_last_page:
  assumes "server offset = Body (PDict page)"
    and "map_of page (str_lit ''error'') = None"
    and "dict_get (PDict page) (str_lit ''features'') (PList []) = Inr (PList fs)"
    and "length fs < page_size"
  shows "fetch_loop server offset all_features requested =
           Some (all_features @ fs, requested @ [offset])"
proof -
  from assms(2) have no_error: "py_in (str_lit ''error'') (PDict page) = Inr False"
    by (simp add: map_of_eq_None_iff)
  have "try_page (server offset) all_features = Inr (False, all_features @ fs)"
    unfolding try_page_def assms(1) using no_error assms(3,4)
    by (cases fs) simp_all
  then show ?thesis
    by (subst fetch_loop.simps) simp
qed

theorem short_page_is_last_page_witness:
  "one_shelter_server 0 = Body (PDict [(str_lit ''features'', PList [storgatan])]) \<and>
   map_of [(str_lit ''features'', PList [storgatan])] (str_lit ''error'') = None \<and>
   dict_get (PDict [(str_lit ''features'', PList [storgatan])]) (str_lit ''features'') (PList []) =
     Inr (PList [storgatan]) \<and>
   length [storgatan] < page_size \<and>
   fetch_loop one_shelter_server 0 [] [] = Some ([] @ [storgatan], [] @ [0])"
proof -
  have a: "one_shelter_server 0 = Body (PDict [(str_lit ''features'', PList [storgatan])])"
    by (simp add: one_shelter_server_def)
  have b: "map_of [(str_lit ''features'', PList [storgatan])] (str_lit ''error'') = None"
    by simp
  have c: "dict_get (PDict [(str_lit ''features'', PList [storgatan])]) (str_lit ''features'')
             (PList []) = Inr (PList [storgatan])"
    by simp
  have d: "length [storgatan] < page_size"
    by (simp add: page_size_def)
  have "fetch_loop one_shelter_server 0 [] [] = Some ([] @ [storgatan], [] @ [0])"
    using a b c d
    by (rule short_page_is_last_page
        [where server = one_shelter_server and offset = 0 and fs = "[storgatan]"])
  with a b c d show ?thesis by blast
qed

section \<open>The exit code\<close>

lemma fetch_one_shelter: "fetch_all_shelters one_shelter_server = Some [storgatan]"
  unfolding fetch_all_shelters_def
  by (subst fetch_loop.simps) (simp add: try_page_def one_shelter_server_def page_size_def)

lemma fetch_null_geometry: "fetch_all_shelters null_geometry_server = Some [null_geometry]"
  unfolding fetch_all_shelters_def
  by (subst fetch_loop.simps) (simp add: try_page_def null_geometry_server_def page_size_def)

lemma null_geometry_run:
  "convert_to_app_format example_runtime [null_geometry] = Inl TypeError"
  by (simp add: eval_defs null_geometry_def)

text \<open>
  C9 (as amended). Once the fetch stage has returned, the program calls \<open>exit(1)\<close> if and
  only if it returned zero records. When at least one record was fetched, the program
  runs to its end with exit code 0 and the document written, provided that neither the
  transformer nor the file operations raise; an exception raised there is not caught and
  also ends the process with exit code 1.
\<close>

theorem exit_code_after_fetch:
  assumes "fetch_all_shelters server = Some fetched"
  shows "\<exists>oc. main rt server = Some oc \<and>
           (oc = Exit 1 \<longleftrightarrow> fetched = []) \<and>
           (exit_code oc = 1 \<longleftrightarrow>
              fetched = [] \<or> (\<exists>e. convert_to_app_format rt fetched = Inl e) \<or> io_error rt \<noteq> None) \<and>
           (\<forall>doc. fetched \<noteq> [] \<longrightarrow> convert_to_app_format rt fetched = Inr doc \<longrightarrow>
              io_error rt = None \<longrightarrow> oc = Done doc \<and> exit_code oc = 0)"
proof -
  have m: "main rt server = Some (after_fetch rt fetched)"
    using assms by (simp add: main_def)
  have "(after_fetch rt fetched = Exit 1 \<longleftrightarrow> fetched = [])"
    by (auto simp: after_fetch_def split: sum.splits option.splits)
  moreover have "(exit_code (after_fetch rt fetched) = 1 \<longleftrightarrow>
       fetched = [] \<or> (\<exists>e. convert_to_app_format rt fetched = Inl e) \<or> io_error rt \<noteq> None)"
    by (auto simp: after_fetch_def split: sum.splits option.splits)
  moreover have "\<forall>doc. fetched \<noteq> [] \<longrightarrow> convert_to_app_format rt fetched = Inr doc \<longrightarrow>
       io_error rt = None \<longrightarrow>
       after_fetch rt fetched = Done doc \<and> exit_code (after_fetch rt fetched) = 0"
    by (simp add: after_fetch_def)
  ultimately show ?thesis using m by blast
qed

theorem exit_code_after_fetch_witness:
  "fetch_all_shelters one_shelter_server = Some [storgatan] \<and>
   main example_runtime one_shelter_server =
     Some (Done (collection [example_feature 0 40 (PStr (str_lit ''Storgatan 5''))])) \<and>
   exit_code (Done (collection [example_feature 0 40 (PStr (str_lit ''Storgatan 5''))])) = 0"
proof -
  from exit_code_after_fetch [OF fetch_one_shelter, of example_runtime] obtain oc where
    m: "main example_runtime one_shelter_server = Some oc"
    and d: "\<forall>doc. [storgatan] \<noteq> [] \<longrightarrow>
              convert_to_app_format example_runtime [storgatan] = Inr doc \<longrightarrow>
              io_error example_runtime = None \<longrightarrow> oc = Done doc \<and> exit_code oc = 0"
    by blast
  have "io_error example_runtime = None"
    by (simp add: example_runtime_def)
  with d storgatan_run
  have "oc = Done (collection [example_feature 0 40 (PStr (str_lit ''Storgatan 5''))])"
    by blast
  with m fetch_one_shelter show ?thesis by simp
qed

text \<open>
  The claim as written fails: one record was fetched, its geometry is null, the
  transformer raises TypeError on the membership test and the process ends with exit
  code 1.
\<close>

theorem exit_code_counterexample:
  "fetch_all_shelters null_geometry_server = Some [null_geometry] \<and>
   main example_runtime null_geometry_server = Some (Uncaught TypeError) \<and>
   exit_code (Uncaught TypeError) = 1"
  using fetch_null_geometry null_geometry_run
  by (simp add: main_def after_fetch_def)


end
